theory Spec2Isabelle
  imports Main "HOL-Library.AList" "HOL-Library.Char_ord" "HOL-Library.List_Lexorder"
begin

section \<open>JavaScript values as the handlers see them\<close>

text \<open>
  The request body is the result of \<open>JSON.parse\<close>, and a task of the JSON-file variants is
  whatever \<open>JSON.stringify\<close> wrote to the user's file, so both are JSON values. Objects are
  association lists in which the first binding of a key is the one that counts.

  Scope of the model, stated once:
  \<^item> a string is a list of code units below 256 (Isabelle's \<open>char\<close>);
  \<^item> a number is an integer (JSON fractions are left out);
  \<^item> the body handed to a handler is an object (\<open>getRequestBody\<close> yields \<open>{}\<close> for an
    empty or unparsable body); bodies that parse to a non-object are left out;
  \<^item> file and database operations do not fail;
  \<^item> the clock, the random number generator, \<open>bcrypt\<close> and \<open>Date\<close> parsing are inputs
    of the handlers that use them.
\<close>

datatype json =
    JNull
  | JBool bool
  | JNum int
  | JStr string
  | JArr "json list"
  | JObj "(string \<times> json) list"

type_synonym obj = "(string \<times> json) list"

text \<open>Property access \<open>o.k\<close>; \<open>None\<close> is JavaScript's \<open>undefined\<close>.\<close>

definition field :: "obj \<Rightarrow> string \<Rightarrow> json option" where
  "field ob k = map_of ob k"

text \<open>\<open>Boolean(v)\<close>, the test of \<open>!v\<close>, \<open>v || d\<close> and \<open>v ? a : b\<close>.\<close>

fun truthy :: "json option \<Rightarrow> bool" where
  "truthy None = False"
| "truthy (Some JNull) = False"
| "truthy (Some (JBool b)) = b"
| "truthy (Some (JNum n)) = (n \<noteq> 0)"
| "truthy (Some (JStr s)) = (s \<noteq> [])"
| "truthy (Some (JArr xs)) = True"
| "truthy (Some (JObj kvs)) = True"

text \<open>\<open>v || d\<close> for a default \<open>d\<close> that is a JSON value.\<close>

definition or_default :: "json option \<Rightarrow> json \<Rightarrow> json" where
  "or_default v d = (if truthy v then the v else d)"

text \<open>
  Object spread \<open>{...a, ...b}\<close>: the keys of \<open>b\<close> are written over \<open>a\<close>; and the
  assignment \<open>o.k = v\<close>.
\<close>

definition spread :: "obj \<Rightarrow> obj \<Rightarrow> obj" where
  "spread a b = AList.merge a b"

definition assign :: "string \<Rightarrow> json \<Rightarrow> obj \<Rightarrow> obj" where
  "assign k v ob = AList.update k v ob"

text \<open>
  \<open>String.prototype.trim\<close>. The white space and line terminators of ECMAScript that have a
  code unit below 256 are TAB, LF, VT, FF, CR, SPACE and NBSP.
\<close>

definition is_ws :: "char \<Rightarrow> bool" where
  "is_ws c = (of_char c \<in> {9, 10, 11, 12, 13, 32, 160 :: nat})"

definition trim :: "string \<Rightarrow> string" where
  "trim s = rev (dropWhile is_ws (rev (dropWhile is_ws s)))"

text \<open>\<open>Array.prototype.findIndex\<close>; \<open>None\<close> is the result \<open>-1\<close>.\<close>

fun findIndex :: "('a \<Rightarrow> bool) \<Rightarrow> 'a list \<Rightarrow> nat option" where
  "findIndex P [] = None"
| "findIndex P (x # xs) = (if P x then Some 0 else map_option Suc (findIndex P xs))"


section \<open>Responses\<close>

text \<open>
  \<open>sendResponse(res, status, data)\<close> writes a status and a JSON body. The message strings of
  the source are Russian literals; each is a constructor here:
  \<^item> \<open>Unauthorized\<close>: the 401 body of \<open>handleApiRequest\<close>;
  \<^item> \<open>RouteNotFound\<close>: its 404 body;
  \<^item> \<open>ServerError\<close>: the 500 body of the \<open>catch\<close> blocks of the JSON-file variants;
  \<^item> \<open>AllFieldsRequired\<close>, \<open>UserExists\<close>, \<open>UserCreated\<close>: \<open>handleRegister\<close>;
  \<^item> \<open>LoginFieldsRequired\<close>, \<open>InvalidCredentials\<close>: \<open>handleLogin\<close>;
  \<^item> \<open>TaskTextRequired\<close>, \<open>TaskCreated\<close>: \<open>createTask\<close>;
  \<^item> \<open>TaskNotFound\<close>, \<open>TaskUpdated\<close>: \<open>updateTask\<close>; \<open>TaskNotFound\<close>,
    \<open>TaskDeleted\<close>: \<open>deleteTask\<close>;
  \<^item> \<open>DatabaseError\<close>, \<open>TaskCreateError\<close>, \<open>InternalError\<close>: the 500 bodies of the
    SQLite variant.
\<close>

datatype message =
    Unauthorized | RouteNotFound | ServerError
  | AllFieldsRequired | UserExists | UserCreated
  | LoginFieldsRequired | InvalidCredentials
  | TaskTextRequired | TaskCreated
  | TaskNotFound | TaskUpdated | TaskDeleted
  | DatabaseError | TaskCreateError | InternalError

datatype payload =
    ErrorBody message                    \<comment> \<open>\<open>{ error: m }\<close>\<close>
  | MessageBody message                  \<comment> \<open>\<open>{ message: m }\<close>\<close>
  | TaskList "json list"                 \<comment> \<open>the array sent by \<open>getTasks\<close>\<close>
  | CreatedBody string message "obj option"  \<comment> \<open>\<open>{ id, message, task }\<close>\<close>
  | LoginBody string json string         \<comment> \<open>\<open>{ token, user: { id, username } }\<close>\<close>

type_synonym response = "nat \<times> payload"


section \<open>The task store of the JSON-file variants\<close>

text \<open>
  \<open>index.js\<close> and \<open>part_000\<close> keep one file per user under \<open>tasks/\<close>. The file system is a
  map from path to the task array the file holds; \<open>None\<close> is a file that does not exist.
  In \<open>index.js\<close> a user id is \<open>Date.now().toString()\<close>, a string of digits, and in
  \<open>part_000\<close> it is the row id, which the template literal renders in decimal; for such ids
  \<open>path.join\<close> is plain concatenation with a separator.
\<close>

type_synonym files = "string \<Rightarrow> obj list option"

definition getUserTasksFile :: "string \<Rightarrow> string" where
  "getUserTasksFile userId = ''tasks/tasks_'' @ userId @ ''.json''"

definition loadUserTasks :: "files \<Rightarrow> string \<Rightarrow> obj list" where
  "loadUserTasks fs userId =
     (case fs (getUserTasksFile userId) of Some tasks \<Rightarrow> tasks | None \<Rightarrow> [])"

definition saveUserTasks :: "string \<Rightarrow> obj list \<Rightarrow> files \<Rightarrow> files" where
  "saveUserTasks userId tasks fs = fs(getUserTasksFile userId \<mapsto> tasks)"

text \<open>The callback \<open>t => t.id === taskId\<close>; \<open>taskId\<close> is a path segment, hence a string.\<close>

definition has_id :: "string \<Rightarrow> obj \<Rightarrow> bool" where
  "has_id taskId t = (field t ''id'' = Some (JStr taskId))"


text \<open>
  The id \<open>task_${Date.now()}_${Math.random().toString(36).substr(2, 9)}\<close>: the clock value
  and the random suffix are inputs, both already rendered as strings.
\<close>

definition new_task_id :: "string \<Rightarrow> string \<Rightarrow> string" where
  "new_task_id stamp rnd = ''task_'' @ stamp @ ''_'' @ rnd"

text \<open>
  \<open>createTask\<close> of \<open>index.js\<close> (lines 249-282) and of \<open>part_000\<close> (the same code with
  logging). \<open>!text || text.trim() === ''\<close> answers 400 for a falsy text and for a string of
  white space; a truthy text that is not a string has no \<open>trim\<close> method, the call throws
  and the \<open>catch\<close> answers 500. \<open>now1\<close> and \<open>now2\<close> are the two readings of
  \<open>new Date().toISOString()\<close>.
\<close>

definition createTask ::
  "obj \<Rightarrow> string \<Rightarrow> string \<Rightarrow> string \<Rightarrow> string \<Rightarrow> string \<Rightarrow> files \<Rightarrow> response \<times> files" where
  "createTask body userId stamp rnd now1 now2 fs =
     (let text = field body ''text'';
          priority = field body ''priority'';
          category = field body ''category'';
          deadline = field body ''deadline''
      in if \<not> truthy text then ((400, ErrorBody TaskTextRequired), fs)
         else case text of
           Some (JStr s) \<Rightarrow>
             if trim s = [] then ((400, ErrorBody TaskTextRequired), fs)
             else
               let tasks = loadUserTasks fs userId;
                   newTask =
                     [(''id'', JStr (new_task_id stamp rnd)),
                      (''text'', JStr (trim s)),
                      (''priority'', or_default priority (JStr ''medium'')),
                      (''category'', or_default category (JStr ''personal'')),
                      (''deadline'', or_default deadline JNull),
                      (''completed'', JBool False),
                      (''created_at'', JStr now1),
                      (''updated_at'', JStr now2)]
               in ((201, CreatedBody (new_task_id stamp rnd) TaskCreated (Some newTask)),
                   saveUserTasks userId (tasks @ [newTask]) fs)
         | _ \<Rightarrow> ((500, ErrorBody ServerError), fs))"

text \<open>\<open>updateTask\<close> of \<open>index.js\<close> (lines 285-309).\<close>

definition updateTask ::
  "obj \<Rightarrow> string \<Rightarrow> string \<Rightarrow> string \<Rightarrow> files \<Rightarrow> response \<times> files" where
  "updateTask body userId taskId now fs =
     (let tasks = loadUserTasks fs userId
      in case findIndex (has_id taskId) tasks of
           None \<Rightarrow> ((404, ErrorBody TaskNotFound), fs)
         | Some taskIndex \<Rightarrow>
             let updatedTask = assign ''updated_at'' (JStr now) (spread (tasks ! taskIndex) body)
             in ((200, MessageBody TaskUpdated),
                 saveUserTasks userId (tasks[taskIndex := updatedTask]) fs))"

text \<open>
  \<open>updateTask\<close> of \<open>part_000\<close> (lines 303-333): the same, followed by
  \<open>if (body.completed !== undefined) updatedTask.completed = Boolean(body.completed)\<close>.
\<close>

definition updateTask_part_000 ::
  "obj \<Rightarrow> string \<Rightarrow> string \<Rightarrow> string \<Rightarrow> files \<Rightarrow> response \<times> files" where
  "updateTask_part_000 body userId taskId now fs =
     (let tasks = loadUserTasks fs userId
      in case findIndex (has_id taskId) tasks of
           None \<Rightarrow> ((404, ErrorBody TaskNotFound), fs)
         | Some taskIndex \<Rightarrow>
             let updatedTask0 = assign ''updated_at'' (JStr now) (spread (tasks ! taskIndex) body);
                 updatedTask =
                   (if field body ''completed'' \<noteq> None
                    then assign ''completed'' (JBool (truthy (field body ''completed''))) updatedTask0
                    else updatedTask0)
             in ((200, MessageBody TaskUpdated),
                 saveUserTasks userId (tasks[taskIndex := updatedTask]) fs))"

text \<open>\<open>deleteTask\<close> of \<open>index.js\<close> (lines 312-328) and of \<open>part_000\<close>.\<close>

definition deleteTask :: "string \<Rightarrow> string \<Rightarrow> files \<Rightarrow> response \<times> files" where
  "deleteTask userId taskId fs =
     (let tasks = loadUserTasks fs userId;
          filteredTasks = filter (\<lambda>t. \<not> has_id taskId t) tasks
      in if length tasks = length filteredTasks then ((404, ErrorBody TaskNotFound), fs)
         else ((200, MessageBody TaskDeleted), saveUserTasks userId filteredTasks fs))"


section \<open>The task store of the SQLite variant\<close>

text \<open>
  \<open>part_001\<close> keeps all tasks in one table,
  \<^verbatim>\<open>tasks (id TEXT PRIMARY KEY, user_id INTEGER NOT NULL, text TEXT NOT NULL,
         completed INTEGER DEFAULT 0, priority TEXT DEFAULT 'medium',
         category TEXT DEFAULT 'personal', deadline TEXT,
         created_at DATETIME DEFAULT CURRENT_TIMESTAMP,
         updated_at DATETIME DEFAULT CURRENT_TIMESTAMP)\<close>
  A row is a record, the table a list of rows in insertion order. A user id is the
  \<open>AUTOINCREMENT\<close> row id of the users table, a number. \<open>CURRENT_TIMESTAMP\<close> is an input,
  a string of the form \<open>YYYY-MM-DD HH:MM:SS\<close>; SQLite orders such text byte by byte.
\<close>

record task_row =
  row_id :: string
  row_user_id :: nat
  row_text :: string
  row_completed :: int
  row_priority :: string
  row_category :: string
  row_deadline :: "string option"
  row_created_at :: string
  row_updated_at :: string

type_synonym tasks_table = "task_row list"

text \<open>
  \<open>String(v)\<close> on a JSON value or \<open>undefined\<close>. Integers print in decimal (from
  \<open>10^21\<close> on JavaScript prints an exponent, which is left out); an array prints its
  elements separated by commas, with nothing for \<open>null\<close>.
\<close>

function dec_nat :: "nat \<Rightarrow> string" where
  "dec_nat n = (if n < 10 then [char_of (48 + n)]
                else dec_nat (n div 10) @ [char_of (48 + n mod 10)])"
  by pat_completeness auto
termination
  by (relation "measure (\<lambda>n. n)") auto

definition dec_int :: "int \<Rightarrow> string" where
  "dec_int i = (if i < 0 then CHR ''-'' # dec_nat (nat (- i)) else dec_nat (nat i))"

fun join_comma :: "string list \<Rightarrow> string" where
  "join_comma [] = []"
| "join_comma [x] = x"
| "join_comma (x # y # ys) = x @ '','' @ join_comma (y # ys)"

fun String_json :: "json \<Rightarrow> string" where
  "String_json JNull = ''null''"
| "String_json (JBool b) = (if b then ''true'' else ''false'')"
| "String_json (JNum n) = dec_int n"
| "String_json (JStr s) = s"
| "String_json (JArr xs) = join_comma (map (\<lambda>x. if x = JNull then [] else String_json x) xs)"
| "String_json (JObj kvs) = ''[object Object]''"

definition js_String :: "json option \<Rightarrow> string" where
  "js_String v = (case v of None \<Rightarrow> ''undefined'' | Some j \<Rightarrow> String_json j)"

text \<open>\<open>String(v || d)\<close> for a string default \<open>d\<close>.\<close>

definition String_or :: "json option \<Rightarrow> string \<Rightarrow> string" where
  "String_or v d = (if truthy v then js_String v else d)"

text \<open>The test \<open>/^\d{4}-\d{2}-\d{2}$/\<close>.\<close>

definition is_digit :: "char \<Rightarrow> bool" where
  "is_digit c = (48 \<le> (of_char c :: nat) \<and> (of_char c :: nat) \<le> 57)"

fun dateRegex_test :: "string \<Rightarrow> bool" where
  "dateRegex_test [y1, y2, y3, y4, d1, m1, m2, d2, t1, t2] =
     (is_digit y1 \<and> is_digit y2 \<and> is_digit y3 \<and> is_digit y4 \<and> d1 = CHR ''-'' \<and>
      is_digit m1 \<and> is_digit m2 \<and> d2 = CHR ''-'' \<and> is_digit t1 \<and> is_digit t2)"
| "dateRegex_test _ = False"

definition validPriorities :: "string list" where
  "validPriorities = [''low'', ''medium'', ''high'']"

definition validCategories :: "string list" where
  "validCategories = [''personal'', ''work'', ''shopping'', ''health'']"

text \<open>
  \<open>sanitizeTaskData\<close> (\<open>part_001\<close>, lines 276-287). The deadline goes through
  \<open>new Date(data.deadline).toISOString().split('T')[0]\<close>; how \<open>Date\<close> reads a value is the
  host's business, so it is the parameter \<open>isoDate\<close>: \<open>Some d\<close> is the date part of the ISO
  string, \<open>None\<close> an invalid date, on which \<open>toISOString\<close> throws. Then the whole function
  throws, which is the result \<open>None\<close>.
\<close>

record task_data =
  td_text :: string
  td_priority :: string
  td_category :: string
  td_deadline :: "string option"

definition sanitizeTaskData :: "(json \<Rightarrow> string option) \<Rightarrow> obj \<Rightarrow> task_data option" where
  "sanitizeTaskData isoDate data =
     (let text = trim (String_or (field data ''text'') '''');
          priority = (if js_String (field data ''priority'') \<in> set validPriorities
                      then js_String (field data ''priority'') else ''medium'');
          category = (if js_String (field data ''category'') \<in> set validCategories
                      then js_String (field data ''category'') else ''personal'')
      in if truthy (field data ''deadline'')
         then (case isoDate (the (field data ''deadline'')) of
                 None \<Rightarrow> None
               | Some d \<Rightarrow> Some \<lparr>td_text = text, td_priority = priority,
                                 td_category = category, td_deadline = Some d\<rparr>)
         else Some \<lparr>td_text = text, td_priority = priority,
                     td_category = category, td_deadline = None\<rparr>)"

text \<open>The condition \<open>WHERE id = ? AND user_id = ?\<close>.\<close>

definition row_matches :: "string \<Rightarrow> nat \<Rightarrow> task_row \<Rightarrow> bool" where
  "row_matches taskId userId r = (row_id r = taskId \<and> row_user_id r = userId)"

text \<open>
  \<open>createTask\<close> of \<open>part_001\<close> (lines 289-407). The \<open>INSERT\<close> fails on a primary key that
  is already in the table; the error is then a constraint error, not \<open>SQLITE_MISMATCH\<close>, and
  the answer is 500. The success body carries no \<open>task\<close>.
\<close>

definition createTask_sql ::
  "obj \<Rightarrow> nat \<Rightarrow> string \<Rightarrow> string \<Rightarrow> string \<Rightarrow> tasks_table \<Rightarrow> response \<times> tasks_table" where
  "createTask_sql body userId stamp rnd now db =
     (let text = trim (String_or (field body ''text'') '''');
          priority0 = String_or (field body ''priority'') ''medium'';
          category0 = String_or (field body ''category'') ''personal'';
          deadline0 = (if truthy (field body ''deadline'')
                       then Some (js_String (field body ''deadline'')) else None)
      in if text = [] then ((400, ErrorBody TaskTextRequired), db)
         else
           let priority = (if priority0 \<in> set validPriorities then priority0 else ''medium'');
               category = (if category0 \<in> set validCategories then category0 else ''personal'');
               deadline = (case deadline0 of
                             None \<Rightarrow> None
                           | Some d \<Rightarrow> if d \<noteq> [] \<and> \<not> dateRegex_test d then None else Some d);
               taskId = new_task_id stamp rnd
           in if taskId \<in> row_id ` set db then ((500, ErrorBody TaskCreateError), db)
              else ((201, CreatedBody taskId TaskCreated None),
                    db @ [\<lparr>row_id = taskId, row_user_id = userId, row_text = text,
                           row_completed = 0, row_priority = priority,
                           row_category = category, row_deadline = deadline,
                           row_created_at = now, row_updated_at = now\<rparr>]))"

text \<open>
  \<open>updateTask\<close> of \<open>part_001\<close> (lines 410-446): every column is set from the sanitised
  body, \<open>this.changes\<close> is the number of rows the \<open>WHERE\<close> clause matched.
\<close>

definition updateTask_sql ::
  "(json \<Rightarrow> string option) \<Rightarrow> obj \<Rightarrow> nat \<Rightarrow> string \<Rightarrow> string \<Rightarrow> tasks_table
     \<Rightarrow> response \<times> tasks_table" where
  "updateTask_sql isoDate body userId taskId now db =
     (case sanitizeTaskData isoDate body of
        None \<Rightarrow> ((500, ErrorBody InternalError), db)
      | Some sanitizedData \<Rightarrow>
          let completedInt = (if truthy (field body ''completed'') then 1 else 0);
              changes = length (filter (row_matches taskId userId) db);
              db' = map (\<lambda>r. if row_matches taskId userId r
                               then r\<lparr>row_text := td_text sanitizedData,
                                      row_completed := completedInt,
                                      row_priority := td_priority sanitizedData,
                                      row_category := td_category sanitizedData,
                                      row_deadline := td_deadline sanitizedData,
                                      row_updated_at := now\<rparr>
                               else r) db
          in if changes = 0 then ((404, ErrorBody TaskNotFound), db')
             else ((200, MessageBody TaskUpdated), db'))"

text \<open>\<open>deleteTask\<close> of \<open>part_001\<close> (lines 449-466).\<close>

definition deleteTask_sql :: "nat \<Rightarrow> string \<Rightarrow> tasks_table \<Rightarrow> response \<times> tasks_table" where
  "deleteTask_sql userId taskId db =
     (let changes = length (filter (row_matches taskId userId) db);
          db' = filter (\<lambda>r. \<not> row_matches taskId userId r) db
      in if changes = 0 then ((404, ErrorBody TaskNotFound), db')
         else ((200, MessageBody TaskDeleted), db'))"





section \<open>Users, login and the token\<close>

text \<open>
  A user as \<open>handleRegister\<close> stores it. In \<open>index.js\<close> the id is
  \<open>Date.now().toString()\<close>, a string; in \<open>part_000\<close> and \<open>part_001\<close> it is the integer
  row id of the \<open>users\<close> table. User names, e-mail addresses and stored hashes are
  strings, and \<open>None\<close> is a field the body does not have. The password of a registration
  is a string; the password of a login request is any JSON value.
\<close>

record 'id user =
  user_id :: 'id
  user_username :: string
  user_email :: string
  user_password :: string
  user_created_at :: string

text \<open>
  \<open>Buffer.from(s)\<close>: the UTF-8 bytes of a string, for code units below 256; and
  \<open>buf.toString('utf-8')\<close>, which is \<open>None\<close> where the bytes decode to a code point of 256
  or more or contain an ill-formed sequence (replaced by U+FFFD): neither is a string of
  this model.
\<close>

definition utf8_encode :: "string \<Rightarrow> nat list" where
  "utf8_encode s =
     concat (map (\<lambda>c. if of_char c < (128 :: nat) then [of_char c]
                         else [192 + of_char c div 64, 128 + of_char c mod 64]) s)"

fun utf8_decode :: "nat list \<Rightarrow> string option" where
  "utf8_decode [] = Some []"
| "utf8_decode [b] = (if b < 128 then Some [char_of b] else None)"
| "utf8_decode (b # c # bs) =
     (if b < 128 then map_option (\<lambda>s. char_of b # s) (utf8_decode (c # bs))
      else if (b = 194 \<or> b = 195) \<and> 128 \<le> c \<and> c < 192
      then map_option (\<lambda>s. char_of ((b - 192) * 64 + (c - 128)) # s) (utf8_decode bs)
      else None)"

text \<open>
  \<open>buf.toString('base64')\<close>, and \<open>Buffer.from(token, 'base64')\<close> on canonical padded
  base64. Node's decoder never throws and also accepts other input (it skips characters
  outside the alphabet); the model answers \<open>None\<close> there.
\<close>

definition b64_alphabet :: string where
  "b64_alphabet = ''ABCDEFGHIJKLMNOPQRSTUVWXYZabcdefghijklmnopqrstuvwxyz0123456789+/''"

definition b64_char :: "nat \<Rightarrow> char" where
  "b64_char n = b64_alphabet ! (n mod 64)"

definition b64_index :: "char \<Rightarrow> nat option" where
  "b64_index c = findIndex (\<lambda>x. x = c) b64_alphabet"

fun b64_encode :: "nat list \<Rightarrow> string" where
  "b64_encode [] = []"
| "b64_encode [a] = [b64_char (a div 4), b64_char ((a mod 4) * 16), CHR ''='', CHR ''='']"
| "b64_encode [a, b] =
     [b64_char (a div 4), b64_char ((a mod 4) * 16 + b div 16), b64_char ((b mod 16) * 4),
      CHR ''='']"
| "b64_encode (a # b # c # bs) =
     [b64_char (a div 4), b64_char ((a mod 4) * 16 + b div 16),
      b64_char ((b mod 16) * 4 + c div 64), b64_char (c mod 64)] @ b64_encode bs"

fun b64_decode :: "string \<Rightarrow> nat list option" where
  "b64_decode [] = Some []"
| "b64_decode (p # q # r # s # cs) =
     (case (b64_index p, b64_index q) of
        (Some x, Some y) \<Rightarrow>
          if r = CHR ''='' \<and> s = CHR ''='' \<and> cs = [] then
            (if y mod 16 = 0 then Some [x * 4 + y div 16] else None)
          else (case b64_index r of
                  None \<Rightarrow> None
                | Some z \<Rightarrow>
                    if s = CHR ''='' \<and> cs = [] then
                      (if z mod 4 = 0 then Some [x * 4 + y div 16, (y mod 16) * 16 + z div 4]
                       else None)
                    else (case b64_index s of
                            None \<Rightarrow> None
                          | Some w \<Rightarrow>
                              map_option
                                (\<lambda>bs. [x * 4 + y div 16, (y mod 16) * 16 + z div 4,
                                        (z mod 4) * 64 + w] @ bs)
                                (b64_decode cs)))
      | _ \<Rightarrow> None)"
| "b64_decode _ = None"

text \<open>\<open>s.split(c)\<close> for a one-character separator: never the empty array.\<close>

fun split_on :: "char \<Rightarrow> string \<Rightarrow> string list" where
  "split_on c [] = [[]]"
| "split_on c (x # xs) =
     (if x = c then [] # split_on c xs
      else (case split_on c xs of p # ps \<Rightarrow> (x # p) # ps | [] \<Rightarrow> [[x]]))"

text \<open>
  \<open>handleRegister\<close> of \<open>index.js\<close> (lines 140-173). \<open>hashedPassword\<close> is what
  \<open>bcrypt.hash(password, 10)\<close> returned, \<open>stamp\<close> is \<open>Date.now().toString()\<close> and \<open>now\<close>
  the ISO time.
\<close>

definition handleRegister ::
  "string option \<Rightarrow> string option \<Rightarrow> string option \<Rightarrow> string \<Rightarrow> string \<Rightarrow> string
     \<Rightarrow> string user list \<Rightarrow> response \<times> string user list" where
  "handleRegister username email password hashedPassword stamp now users =
     (case (username, email, password) of
        (Some name, Some mail, Some pw) \<Rightarrow>
          if name = [] \<or> mail = [] \<or> pw = [] then ((400, ErrorBody AllFieldsRequired), users)
          else if find (\<lambda>u. user_username u = name \<or> user_email u = mail) users \<noteq> None
          then ((400, ErrorBody UserExists), users)
          else ((201, MessageBody UserCreated),
                users @ [\<lparr>user_id = stamp, user_username = name, user_email = mail,
                           user_password = hashedPassword, user_created_at = now\<rparr>])
      | _ \<Rightarrow> ((400, ErrorBody AllFieldsRequired), users))"

text \<open>
  \<open>bcrypt.compare(password, hash)\<close> of the bcryptjs package, which is not part of the
  repository. It rejects with \<open>Illegal arguments\<close> unless both arguments are strings
  (\<open>None\<close>); on two strings it resolves to a verdict, which is the parameter \<open>matches\<close>.
  The stored hash is always a string.
\<close>

definition bcrypt_compare :: "(string \<Rightarrow> string \<Rightarrow> bool) \<Rightarrow> json \<Rightarrow> string \<Rightarrow> bool option" where
  "bcrypt_compare matches password hash =
     (case password of JStr s \<Rightarrow> Some (matches s hash) | _ \<Rightarrow> None)"

text \<open>
  \<open>handleLogin\<close> of \<open>index.js\<close> (lines 176-214). \<open>!username || !password\<close> lets every
  truthy password through. The lookup and \<open>await bcrypt.compare\<close> are inside the \<open>try\<close>:
  when \<open>compare\<close> rejects, the \<open>catch\<close> answers 500. The token is the base64 of
  \<open>`${user.id}:${username}`\<close>.
\<close>

definition issue_token :: "string \<Rightarrow> string \<Rightarrow> string" where
  "issue_token userId username = b64_encode (utf8_encode (userId @ '':'' @ username))"

definition handleLogin ::
  "(string \<Rightarrow> string \<Rightarrow> bool) \<Rightarrow> string option \<Rightarrow> json option \<Rightarrow> string user list
     \<Rightarrow> response" where
  "handleLogin matches username password users =
     (case (username, password) of
        (Some name, Some pw) \<Rightarrow>
          if name = [] \<or> \<not> truthy (Some pw) then (400, ErrorBody LoginFieldsRequired)
          else (case find (\<lambda>u. user_username u = name) users of
                  None \<Rightarrow> (400, ErrorBody InvalidCredentials)
                | Some user \<Rightarrow>
                    (case bcrypt_compare matches pw (user_password user) of
                       None \<Rightarrow> (500, ErrorBody ServerError)
                     | Some validPassword \<Rightarrow>
                         if \<not> validPassword then (400, ErrorBody InvalidCredentials)
                         else (200, LoginBody (issue_token (user_id user) name)
                                      (JStr (user_id user)) (user_username user))))
      | _ \<Rightarrow> (400, ErrorBody LoginFieldsRequired))"

text \<open>
  \<open>handleLogin\<close> of \<open>part_000\<close> (lines 171-218) and \<open>part_001\<close> (lines 177-222): the user
  is the row that \<open>SELECT * FROM users WHERE username = ?\<close> returns, the id a number.
  \<open>await bcrypt.compare\<close> runs inside the \<open>async\<close> callback of \<open>db.get\<close>, outside any
  \<open>try\<close>: when \<open>compare\<close> rejects, nothing handles the rejection and no response is sent,
  which is the result \<open>None\<close>.
\<close>

definition handleLogin_sql ::
  "(string \<Rightarrow> string \<Rightarrow> bool) \<Rightarrow> string option \<Rightarrow> json option \<Rightarrow> nat user list
     \<Rightarrow> response option" where
  "handleLogin_sql matches username password users =
     (case (username, password) of
        (Some name, Some pw) \<Rightarrow>
          if name = [] \<or> \<not> truthy (Some pw) then Some (400, ErrorBody LoginFieldsRequired)
          else (case find (\<lambda>u. user_username u = name) users of
                  None \<Rightarrow> Some (400, ErrorBody InvalidCredentials)
                | Some user \<Rightarrow>
                    (case bcrypt_compare matches pw (user_password user) of
                       None \<Rightarrow> None
                     | Some validPassword \<Rightarrow>
                         if \<not> validPassword then Some (400, ErrorBody InvalidCredentials)
                         else Some (200, LoginBody (issue_token (dec_nat (user_id user)) name)
                                           (JNum (int (user_id user))) (user_username user))))
      | _ \<Rightarrow> Some (400, ErrorBody LoginFieldsRequired))"

text \<open>
  \<open>authenticate\<close> of \<open>index.js\<close> (lines 217-235). \<open>[userId, username] = decoded.split(':')\<close>
  takes the first two segments; \<open>username\<close> is \<open>undefined\<close> when there is one segment only
  (\<open>split\<close> returns at least one, so the case of no segment is never taken). The result
  \<open>OutsideModel\<close> stands for a token whose decoding is not covered, see \<open>b64_decode\<close> and
  \<open>utf8_decode\<close>.
\<close>

datatype auth = Auth string string | NoAuth | OutsideModel

definition authenticate :: "string option \<Rightarrow> string user list \<Rightarrow> auth" where
  "authenticate authHeader users =
     (case authHeader of
        None \<Rightarrow> NoAuth
      | Some h \<Rightarrow>
          if h = [] \<or> take 6 h \<noteq> ''Basic '' then NoAuth
          else (case b64_decode (drop 6 h) of
                  None \<Rightarrow> OutsideModel
                | Some bytes \<Rightarrow>
                    (case utf8_decode bytes of
                       None \<Rightarrow> OutsideModel
                     | Some decoded \<Rightarrow>
                         (case split_on CHR '':'' decoded of
                            [] \<Rightarrow> NoAuth
                          | userId # rest \<Rightarrow>
                              let username = (case rest of [] \<Rightarrow> None | n # _ \<Rightarrow> Some n)
                              in (case find (\<lambda>u. user_id u = userId \<and>
                                                   Some (user_username u) = username) users of
                                    None \<Rightarrow> NoAuth
                                  | Some user \<Rightarrow> Auth (user_id user) (user_username user))))))"


section \<open>Requests of authenticated users, one after another\<close>










section \<open>Auxiliary notions for the statements\<close>

text \<open>The task a user's file holds at a position, and a one-task file system to run on.\<close>

definition task_at :: "files \<Rightarrow> string \<Rightarrow> nat \<Rightarrow> obj" where
  "task_at fs userId i = loadUserTasks fs userId ! i"

definition milk_task :: obj where
  "milk_task =
     [(''id'', JStr ''task_1_abc''),
      (''text'', JStr ''Buy milk''),
      (''priority'', JStr ''high''),
      (''category'', JStr ''shopping''),
      (''deadline'', JStr ''2025-01-31''),
      (''completed'', JBool False),
      (''created_at'', JStr ''2025-01-01T00:00:00.000Z''),
      (''updated_at'', JStr ''2025-01-01T00:00:00.000Z'')]"

definition no_files :: files where
  "no_files = (\<lambda>p. None)"

definition one_user_files :: files where
  "one_user_files = saveUserTasks ''1'' [milk_task] no_files"

definition milk_row :: task_row where
  "milk_row = \<lparr>row_id = ''task_1_abc'', row_user_id = 1, row_text = ''Buy milk'',
      row_completed = 0, row_priority = ''high'', row_category = ''shopping'',
      row_deadline = Some ''2025-01-31'', row_created_at = ''2025-01-01 09:00:00'',
      row_updated_at = ''2025-01-01 09:00:00''\<rparr>"

text \<open>A registered user, as a users-file entry and as a users-table row, and a stand-in for
  the verdict of \<open>bcrypt.compare\<close> on two strings.\<close>

definition alice :: "string user" where
  "alice = \<lparr>user_id = ''1700000000000'', user_username = ''alice'', user_email = ''a@x.org'',
            user_password = ''hash-of-secret'', user_created_at = ''t0''\<rparr>"

definition alice_row :: "nat user" where
  "alice_row = \<lparr>user_id = 1, user_username = ''alice'', user_email = ''a@x.org'',
            user_password = ''hash-of-secret'', user_created_at = ''t0''\<rparr>"

definition toy_compare :: "string \<Rightarrow> string \<Rightarrow> bool" where
  "toy_compare pw h = (h = ''hash-of-'' @ pw)"

text \<open>
  An empty \<open>tasks/\<close> directory, a \<open>Date\<close> that reads nothing as a date, and the stored
  values of one field over a list of tasks.
\<close>

definition no_date :: "json \<Rightarrow> string option" where
  "no_date = (\<lambda>v. None)"

definition stored :: "string \<Rightarrow> obj list \<Rightarrow> json option list" where
  "stored k tasks = map (\<lambda>t. field t k) tasks"




text \<open>
  A user owns a task id when a task with that id is in the user's file (JSON-file variants),
  or when a row with that id carries the user's id (SQLite variant).
\<close>

definition owns :: "files \<Rightarrow> string \<Rightarrow> string \<Rightarrow> bool" where
  "owns fs userId taskId = (\<exists>t \<in> set (loadUserTasks fs userId). has_id taskId t)"

definition owns_sql :: "tasks_table \<Rightarrow> nat \<Rightarrow> string \<Rightarrow> bool" where
  "owns_sql db userId taskId = (\<exists>r \<in> set db. row_matches taskId userId r)"


section \<open>Basic facts\<close>

lemma load_save_same [simp]: "loadUserTasks (saveUserTasks u ts fs) u = ts"
  by (simp add: loadUserTasks_def saveUserTasks_def)

lemma load_no_files [simp]: "loadUserTasks no_files u = []"
  by (simp add: loadUserTasks_def no_files_def)

lemma getUserTasksFile_inj [simp]: "getUserTasksFile u = getUserTasksFile v \<longleftrightarrow> u = v"
  by (simp add: getUserTasksFile_def)

lemma load_save_other [simp]: "u \<noteq> v \<Longrightarrow> loadUserTasks (saveUserTasks u ts fs) v = loadUserTasks fs v"
  by (simp add: loadUserTasks_def saveUserTasks_def)

lemma field_Nil: "field [] k = None"
  by (simp add: field_def)

lemma field_Cons: "field ((k, v) # ob) k' = (if k' = k then Some v else field ob k')"
  by (simp add: field_def)

lemma field_spread: "field (spread a b) k = (case field b k of Some v \<Rightarrow> Some v | None \<Rightarrow> field a k)"
  by (simp add: field_def spread_def merge_conv' map_add_def split: option.split)

lemma field_assign: "field (assign k v ob) k' = (if k' = k then Some v else field ob k')"
  by (simp add: field_def assign_def update_conv')

lemma findIndex_Some_less: "findIndex P xs = Some i \<Longrightarrow> i < length xs \<and> P (xs ! i)"
  by (induction xs arbitrary: i) (auto split: if_splits)


lemma task_at_updateTask:
  assumes "findIndex (has_id taskId) (loadUserTasks fs userId) = Some i"
  shows "task_at (snd (updateTask body userId taskId now fs)) userId i =
         assign ''updated_at'' (JStr now) (spread (task_at fs userId i) body)"
  using assms findIndex_Some_less [OF assms]
  by (simp add: updateTask_def task_at_def Let_def)

lemma task_at_updateTask_part_000:
  assumes "findIndex (has_id taskId) (loadUserTasks fs userId) = Some i"
  shows "task_at (snd (updateTask_part_000 body userId taskId now fs)) userId i =
         (let t = assign ''updated_at'' (JStr now) (spread (task_at fs userId i) body)
          in if field body ''completed'' \<noteq> None
             then assign ''completed'' (JBool (truthy (field body ''completed''))) t else t)"
  using assms findIndex_Some_less [OF assms]
  by (simp add: updateTask_part_000_def task_at_def Let_def)



section \<open>Update writes the body's fields without a whitelist\<close>





section \<open>Delete answers NotFound exactly when the task is absent\<close>

lemma filter_length_eq_iff: "length xs = length (filter P xs) \<longleftrightarrow> (\<forall>x \<in> set xs. P x)"
  by (metis filter_id_conv length_filter_le filter_True sum_length_filter_compl
      add_cancel_right_right length_0_conv filter_empty_conv)

lemma deleteTask_absent: "\<not> owns fs u tid \<Longrightarrow> deleteTask u tid fs = ((404, ErrorBody TaskNotFound), fs)"
  by (simp add: deleteTask_def owns_def Let_def filter_length_eq_iff)

lemma deleteTask_present:
  assumes "owns fs u tid"
  shows "deleteTask u tid fs =
     ((200, MessageBody TaskDeleted),
      saveUserTasks u (filter (\<lambda>t. \<not> has_id tid t) (loadUserTasks fs u)) fs)"
  using assms by (auto simp add: deleteTask_def owns_def Let_def filter_length_eq_iff)

lemma deleteTask_sql_absent:
  "\<not> owns_sql db u tid \<Longrightarrow> deleteTask_sql u tid db = ((404, ErrorBody TaskNotFound), db)"
  by (auto simp add: deleteTask_sql_def owns_sql_def Let_def filter_empty_conv filter_id_conv)

lemma deleteTask_sql_present:
  "owns_sql db u tid \<Longrightarrow> deleteTask_sql u tid db =
     ((200, MessageBody TaskDeleted), filter (\<lambda>r. \<not> row_matches tid u r) db)"
  by (auto simp add: deleteTask_sql_def owns_sql_def Let_def filter_empty_conv)

text \<open>
  C9. \<open>deleteTask\<close> answers 404 (task not found) exactly when the caller owns no task with
  that id, and then leaves the store as it was. When the caller owns one, the first delete
  answers 200 and removes every task of the caller with that id and nothing else; a second
  delete of the same id by the same user answers 404 and leaves the store unchanged. This
  holds for the JSON-file variants (\<open>index.js\<close>, \<open>part_000\<close>) and for the SQLite variant
  (\<open>part_001\<close>).
\<close>

theorem delete_not_found_iff_absent:
  "((fst (deleteTask u tid fs) = (404, ErrorBody TaskNotFound)) = (\<not> owns fs u tid)) \<and>
   (\<not> owns fs u tid \<longrightarrow> snd (deleteTask u tid fs) = fs) \<and>
   (owns fs u tid \<longrightarrow>
      fst (deleteTask u tid fs) = (200, MessageBody TaskDeleted) \<and>
      loadUserTasks (snd (deleteTask u tid fs)) u
        = filter (\<lambda>t. \<not> has_id tid t) (loadUserTasks fs u) \<and>
      \<not> owns (snd (deleteTask u tid fs)) u tid \<and>
      deleteTask u tid (snd (deleteTask u tid fs))
        = ((404, ErrorBody TaskNotFound), snd (deleteTask u tid fs))) \<and>
   ((fst (deleteTask_sql n tid db) = (404, ErrorBody TaskNotFound)) = (\<not> owns_sql db n tid)) \<and>
   (\<not> owns_sql db n tid \<longrightarrow> snd (deleteTask_sql n tid db) = db) \<and>
   (owns_sql db n tid \<longrightarrow>
      fst (deleteTask_sql n tid db) = (200, MessageBody TaskDeleted) \<and>
      snd (deleteTask_sql n tid db) = filter (\<lambda>r. \<not> row_matches tid n r) db \<and>
      \<not> owns_sql (snd (deleteTask_sql n tid db)) n tid \<and>
      deleteTask_sql n tid (snd (deleteTask_sql n tid db))
        = ((404, ErrorBody TaskNotFound), snd (deleteTask_sql n tid db)))"
proof -
  have gone: "\<not> owns (saveUserTasks u (filter (\<lambda>t. \<not> has_id tid t) (loadUserTasks fs u)) fs) u tid"
    by (simp add: owns_def)
  have gone_sql: "\<not> owns_sql (filter (\<lambda>r. \<not> row_matches tid n r) db) n tid"
    by (simp add: owns_sql_def)
  have json: "((fst (deleteTask u tid fs) = (404, ErrorBody TaskNotFound)) = (\<not> owns fs u tid)) \<and>
   (\<not> owns fs u tid \<longrightarrow> snd (deleteTask u tid fs) = fs) \<and>
   (owns fs u tid \<longrightarrow>
      fst (deleteTask u tid fs) = (200, MessageBody TaskDeleted) \<and>
      loadUserTasks (snd (deleteTask u tid fs)) u
        = filter (\<lambda>t. \<not> has_id tid t) (loadUserTasks fs u) \<and>
      \<not> owns (snd (deleteTask u tid fs)) u tid \<and>
      deleteTask u tid (snd (deleteTask u tid fs))
        = ((404, ErrorBody TaskNotFound), snd (deleteTask u tid fs)))"
  proof (cases "owns fs u tid")
    case True
    then show ?thesis
      using gone by (simp add: deleteTask_present deleteTask_absent)
  next
    case False
    then show ?thesis by (simp add: deleteTask_absent)
  qed
  have sql: "((fst (deleteTask_sql n tid db) = (404, ErrorBody TaskNotFound)) = (\<not> owns_sql db n tid)) \<and>
   (\<not> owns_sql db n tid \<longrightarrow> snd (deleteTask_sql n tid db) = db) \<and>
   (owns_sql db n tid \<longrightarrow>
      fst (deleteTask_sql n tid db) = (200, MessageBody TaskDeleted) \<and>
      snd (deleteTask_sql n tid db) = filter (\<lambda>r. \<not> row_matches tid n r) db \<and>
      \<not> owns_sql (snd (deleteTask_sql n tid db)) n tid \<and>
      deleteTask_sql n tid (snd (deleteTask_sql n tid db))
        = ((404, ErrorBody TaskNotFound), snd (deleteTask_sql n tid db)))"
  proof (cases "owns_sql db n tid")
    case True
    then show ?thesis
      using gone_sql by (simp add: deleteTask_sql_present deleteTask_sql_absent)
  next
    case False
    then show ?thesis by (simp add: deleteTask_sql_absent)
  qed
  from json sql show ?thesis by blast
qed

theorem delete_not_found_iff_absent_witness:
  "owns one_user_files ''1'' ''task_1_abc'' \<and>
   fst (deleteTask ''1'' ''task_1_abc'' one_user_files) = (200, MessageBody TaskDeleted) \<and>
   loadUserTasks (snd (deleteTask ''1'' ''task_1_abc'' one_user_files)) ''1'' = [] \<and>
   fst (deleteTask ''1'' ''task_1_abc'' (snd (deleteTask ''1'' ''task_1_abc'' one_user_files)))
     = (404, ErrorBody TaskNotFound) \<and>
   \<not> owns one_user_files ''2'' ''task_1_abc'' \<and>
   deleteTask ''2'' ''task_1_abc'' one_user_files = ((404, ErrorBody TaskNotFound), one_user_files) \<and>
   owns_sql [milk_row] 1 ''task_1_abc'' \<and>
   deleteTask_sql 1 ''task_1_abc'' [milk_row] = ((200, MessageBody TaskDeleted), []) \<and>
   deleteTask_sql 1 ''task_1_abc'' [] = ((404, ErrorBody TaskNotFound), []) \<and>
   \<not> owns_sql [milk_row] 2 ''task_1_abc'' \<and>
   deleteTask_sql 2 ''task_1_abc'' [milk_row] = ((404, ErrorBody TaskNotFound), [milk_row])"
proof -
  have o1: "owns one_user_files ''1'' ''task_1_abc''"
    by (simp add: owns_def one_user_files_def milk_task_def has_id_def field_Cons)
  have o2: "\<not> owns one_user_files ''2'' ''task_1_abc''"
    by (simp add: owns_def one_user_files_def)
  have s1: "owns_sql [milk_row] 1 ''task_1_abc''"
    by (simp add: owns_sql_def milk_row_def row_matches_def)
  have s2: "\<not> owns_sql [milk_row] 2 ''task_1_abc''"
    by (simp add: owns_sql_def milk_row_def row_matches_def)
  have s0: "\<not> owns_sql [] 1 ''task_1_abc''"
    by (simp add: owns_sql_def)
  have f: "filter (\<lambda>t. \<not> has_id ''task_1_abc'' t) (loadUserTasks one_user_files ''1'') = []"
    by (simp add: one_user_files_def milk_task_def has_id_def field_Cons)
  have g: "filter (\<lambda>r. \<not> row_matches ''task_1_abc'' 1 r) [milk_row] = []"
    by (simp add: milk_row_def row_matches_def)
  show ?thesis
    using o1 o2 s1 s2 s0 f g
      delete_not_found_iff_absent [of "''1''" "''task_1_abc''" one_user_files 1 "[milk_row]"]
      delete_not_found_iff_absent [of "''2''" "''task_1_abc''" one_user_files 2 "[milk_row]"]
      delete_not_found_iff_absent [of "''2''" "''task_1_abc''" one_user_files 1 "[]"]
    by (simp add: prod_eq_iff)
qed


section \<open>What the handlers do with fields they do not validate\<close>

lemmas eval_simps = field_Cons field_Nil trim_def is_ws_def or_default_def Let_def new_task_id_def
  stored_def no_date_def

text \<open>
  C2. The claim: an update whose body carries a truthy non-boolean \<open>completed\<close> stores the
  boolean \<open>true\<close>. \<open>updateTask\<close> of \<open>index.js\<close> has no coercion: on the one-task store,
  the body \<open>{"completed": "true"}\<close> is answered 200 and the stored \<open>completed\<close> is the string
  \<open>"true"\<close>. \<open>updateTask\<close> of \<open>part_000\<close>, the same code plus the coercion, stores the
  boolean on the same input.
\<close>

theorem updateTask_keeps_completed_string:
  "fst (updateTask [(''completed'', JStr ''true'')] ''1'' ''task_1_abc'' ''t3'' one_user_files)
     = (200, MessageBody TaskUpdated) \<and>
   stored ''completed''
     (loadUserTasks (snd (updateTask [(''completed'', JStr ''true'')] ''1'' ''task_1_abc'' ''t3''
        one_user_files)) ''1'') = [Some (JStr ''true'')] \<and>
   stored ''completed''
     (loadUserTasks (snd (updateTask_part_000 [(''completed'', JStr ''true'')] ''1'' ''task_1_abc'' ''t3''
        one_user_files)) ''1'') = [Some (JBool True)]"
  by (simp add: updateTask_def updateTask_part_000_def one_user_files_def milk_task_def has_id_def
        field_assign field_spread eval_simps)

text \<open>
  C3. The claim: a create request with a malformed deadline stores \<open>null\<close>. \<open>createTask\<close>
  of \<open>index.js\<close> and \<open>part_000\<close> stores \<open>deadline || null\<close>: the body
  \<open>{"text": "Buy milk", "deadline": "not-a-date"}\<close> is answered 201 and the stored deadline
  is the string \<open>"not-a-date"\<close>.
\<close>

theorem createTask_keeps_malformed_deadline:
  "fst (fst (createTask [(''text'', JStr ''Buy milk''), (''deadline'', JStr ''not-a-date'')]
       ''1'' ''1700000000000'' ''k3j9x0a1b'' ''t1'' ''t2'' no_files)) = 201 \<and>
   stored ''deadline''
     (loadUserTasks (snd (createTask [(''text'', JStr ''Buy milk''), (''deadline'', JStr ''not-a-date'')]
       ''1'' ''1700000000000'' ''k3j9x0a1b'' ''t1'' ''t2'' no_files)) ''1'')
     = [Some (JStr ''not-a-date'')]"
  by (simp add: createTask_def eval_simps)

text \<open>
  C4. The claim: create stores a priority outside \<open>{low, medium, high}\<close> as \<open>medium\<close> and
  a category outside \<open>{personal, work, shopping, health}\<close> as \<open>personal\<close>. \<open>createTask\<close>
  of \<open>index.js\<close> and \<open>part_000\<close> stores \<open>priority || 'medium'\<close> and
  \<open>category || 'personal'\<close>: the body
  \<open>{"text": "Buy milk", "priority": "urgent", "category": 7}\<close> is answered 201 and both
  values are stored as given.
\<close>

theorem createTask_keeps_invalid_priority_category:
  "fst (fst (createTask
       [(''text'', JStr ''Buy milk''), (''priority'', JStr ''urgent''), (''category'', JNum 7)]
       ''1'' ''1700000000000'' ''k3j9x0a1b'' ''t1'' ''t2'' no_files)) = 201 \<and>
   stored ''priority''
     (loadUserTasks (snd (createTask
       [(''text'', JStr ''Buy milk''), (''priority'', JStr ''urgent''), (''category'', JNum 7)]
       ''1'' ''1700000000000'' ''k3j9x0a1b'' ''t1'' ''t2'' no_files)) ''1'')
     = [Some (JStr ''urgent'')] \<and>
   stored ''category''
     (loadUserTasks (snd (createTask
       [(''text'', JStr ''Buy milk''), (''priority'', JStr ''urgent''), (''category'', JNum 7)]
       ''1'' ''1700000000000'' ''k3j9x0a1b'' ''t1'' ''t2'' no_files)) ''1'')
     = [Some (JNum 7)]"
  by (simp add: createTask_def eval_simps)

text \<open>
  C5. The claim: after a successful update every field absent from the body keeps its
  stored value. \<open>updateTask\<close> of \<open>part_001\<close> sets every column from the sanitised body:
  on a table holding the task \<open>Buy milk\<close> (priority high, category shopping, deadline
  2025-01-31) the body \<open>{"completed": true}\<close> is answered 200 and leaves the row with an
  empty text, priority medium, category personal and no deadline.
\<close>

theorem updateTask_sql_resets_absent_fields:
  "updateTask_sql no_date [(''completed'', JBool True)] 1 ''task_1_abc'' ''2025-02-01 09:00:00''
       [milk_row] =
     ((200, MessageBody TaskUpdated),
      [\<lparr>row_id = ''task_1_abc'', row_user_id = 1, row_text = '''',
        row_completed = 1, row_priority = ''medium'', row_category = ''personal'',
        row_deadline = None, row_created_at = ''2025-01-01 09:00:00'',
        row_updated_at = ''2025-02-01 09:00:00''\<rparr>]) \<and>
   row_text milk_row = ''Buy milk'' \<and> row_priority milk_row = ''high'' \<and>
   row_category milk_row = ''shopping'' \<and> row_deadline milk_row = Some ''2025-01-31''"
  by (simp add: updateTask_sql_def sanitizeTaskData_def eval_simps
     String_or_def js_String_def validPriorities_def validCategories_def milk_row_def row_matches_def)

text \<open>
  C6. The claim: no successful update leaves a stored task with an empty text. In
  \<open>index.js\<close> and \<open>part_000\<close> the body \<open>{"text": ""}\<close> is answered 200 and the stored text
  is the empty string; in \<open>part_001\<close> the empty body \<open>{}\<close> is answered 200 and the row's
  text becomes the empty string.
\<close>

theorem update_stores_empty_text:
  "fst (updateTask [(''text'', JStr '''')] ''1'' ''task_1_abc'' ''t3'' one_user_files)
     = (200, MessageBody TaskUpdated) \<and>
   stored ''text''
     (loadUserTasks (snd (updateTask [(''text'', JStr '''')] ''1'' ''task_1_abc'' ''t3''
        one_user_files)) ''1'') = [Some (JStr '''')] \<and>
   fst (updateTask_part_000 [(''text'', JStr '''')] ''1'' ''task_1_abc'' ''t3'' one_user_files)
     = (200, MessageBody TaskUpdated) \<and>
   stored ''text''
     (loadUserTasks (snd (updateTask_part_000 [(''text'', JStr '''')] ''1'' ''task_1_abc'' ''t3''
        one_user_files)) ''1'') = [Some (JStr '''')] \<and>
   fst (updateTask_sql no_date [] 1 ''task_1_abc'' ''2025-02-01 09:00:00'' [milk_row])
     = (200, MessageBody TaskUpdated) \<and>
   map row_text (snd (updateTask_sql no_date [] 1 ''task_1_abc'' ''2025-02-01 09:00:00''
     [milk_row])) = ['''']"
  by (simp add: updateTask_def updateTask_part_000_def one_user_files_def milk_task_def has_id_def
        field_assign field_spread eval_simps updateTask_sql_def sanitizeTaskData_def
     String_or_def js_String_def validPriorities_def validCategories_def milk_row_def row_matches_def)


section \<open>Login failures\<close>

text \<open>
  For a login request whose password is a string, the two ways to fail, no user with that
  name and a user whose stored hash does not match the password, are answered with the same
  response: status 400 and the invalid-credentials error body.
\<close>

lemma login_failures_same_for_string_passwords:
  assumes "name \<noteq> []" "pw \<noteq> []" "name' \<noteq> []" "pw' \<noteq> []"
  shows
    "(find (\<lambda>u. user_username u = name) users = None \<and>
      find (\<lambda>u. user_username u = name') users = Some v \<and> \<not> matches pw' (user_password v)
      \<longrightarrow> handleLogin matches (Some name) (Some (JStr pw)) users
            = (400, ErrorBody InvalidCredentials) \<and>
          handleLogin matches (Some name') (Some (JStr pw')) users
            = (400, ErrorBody InvalidCredentials)) \<and>
     (find (\<lambda>u. user_username u = name) rows = None \<and>
      find (\<lambda>u. user_username u = name') rows = Some w \<and> \<not> matches pw' (user_password w)
      \<longrightarrow> handleLogin_sql matches (Some name) (Some (JStr pw)) rows
            = Some (400, ErrorBody InvalidCredentials) \<and>
          handleLogin_sql matches (Some name') (Some (JStr pw')) rows
            = Some (400, ErrorBody InvalidCredentials))"
  using assms by (simp add: handleLogin_def handleLogin_sql_def bcrypt_compare_def)

lemma login_never_500_for_string_passwords:
  "fst (handleLogin matches username (Some (JStr pw)) users) \<noteq> 500 \<and>
   handleLogin_sql matches username (Some (JStr pw)) rows \<noteq> None"
  by (simp add: handleLogin_def handleLogin_sql_def bcrypt_compare_def
      split: option.splits)

text \<open>
  C7. The claim: for every login request, an unknown user name and a known one with a
  password that does not match get the same response. The request
  \<open>{"username": "alice", "password": 123}\<close> passes the test \<open>!password\<close>; \<open>bcrypt.compare\<close>
  is called only when the user exists and rejects a password that is not a string. With
  \<open>alice\<close> registered, \<open>index.js\<close> answers 500 and \<open>part_000\<close>/\<open>part_001\<close> send no
  response; the same request for the unknown name \<open>bob\<close> is answered 400 with the
  invalid-credentials body. One request tells a registered name from an unknown one.
\<close>

theorem login_number_password_tells_users_apart:
  "handleLogin toy_compare (Some ''alice'') (Some (JNum 123)) [alice]
     = (500, ErrorBody ServerError) \<and>
   handleLogin toy_compare (Some ''bob'') (Some (JNum 123)) [alice]
     = (400, ErrorBody InvalidCredentials) \<and>
   handleLogin_sql toy_compare (Some ''alice'') (Some (JNum 123)) [alice_row] = None \<and>
   handleLogin_sql toy_compare (Some ''bob'') (Some (JNum 123)) [alice_row]
     = Some (400, ErrorBody InvalidCredentials)"
  by (simp add: handleLogin_def handleLogin_sql_def bcrypt_compare_def alice_def alice_row_def)


section \<open>The token of a user name with a colon\<close>

text \<open>
  C8. The claim: for every registered user, the token issued at login authenticates that
  user. In \<open>index.js\<close>, registering the user name \<open>a:b\<close> is answered 201 and the login
  200 with the token of \<open>1700000000000:a:b\<close>; \<open>authenticate\<close> splits the decoded token at
  every colon, looks for the user name \<open>a\<close> and returns \<open>null\<close>, so the request is answered
  401.
\<close>

theorem token_with_colon_rejected:
  "handleRegister (Some ''a:b'') (Some ''ab@x.org'') (Some ''secret'') ''hash-of-secret''
     ''1700000000000'' ''t0'' []
     = ((201, MessageBody UserCreated),
        [\<lparr>user_id = ''1700000000000'', user_username = ''a:b'', user_email = ''ab@x.org'',
          user_password = ''hash-of-secret'', user_created_at = ''t0''\<rparr>]) \<and>
   handleLogin toy_compare (Some ''a:b'') (Some (JStr ''secret''))
     [\<lparr>user_id = ''1700000000000'', user_username = ''a:b'', user_email = ''ab@x.org'',
       user_password = ''hash-of-secret'', user_created_at = ''t0''\<rparr>]
     = (200, LoginBody ''MTcwMDAwMDAwMDAwMDphOmI='' (JStr ''1700000000000'') ''a:b'') \<and>
   authenticate (Some ''Basic MTcwMDAwMDAwMDAwMDphOmI='')
     [\<lparr>user_id = ''1700000000000'', user_username = ''a:b'', user_email = ''ab@x.org'',
       user_password = ''hash-of-secret'', user_created_at = ''t0''\<rparr>] = NoAuth"
  by (simp add: handleRegister_def handleLogin_def bcrypt_compare_def toy_compare_def
      authenticate_def issue_token_def utf8_encode_def b64_char_def b64_alphabet_def b64_index_def)


section \<open>Owner isolation\<close>














section \<open>Update in the JSON-file variants: what stays and what is converted\<close>

text \<open>
  In \<open>index.js\<close> and \<open>part_000\<close> a key that the body does not have keeps its stored value,
  \<open>updated_at\<close> is the new stamp, and \<open>part_000\<close> stores the boolean of the body's
  \<open>completed\<close>. In \<open>part_001\<close> the row's \<open>completed\<close> is 1 for a truthy value and 0
  otherwise.
\<close>

lemma update_keeps_absent_fields:
  assumes found: "findIndex (has_id taskId) (loadUserTasks fs userId) = Some i"
    and absent: "field body k = None" and k: "k \<noteq> ''updated_at''"
  shows "field (task_at (snd (updateTask body userId taskId now fs)) userId i) k
           = field (task_at fs userId i) k"
    and "field (task_at (snd (updateTask_part_000 body userId taskId now fs)) userId i) k
           = field (task_at fs userId i) k"
  using absent k
  by (auto simp: task_at_updateTask [OF found] task_at_updateTask_part_000 [OF found]
        field_assign field_spread Let_def)

lemma update_stamps_updated_at:
  assumes found: "findIndex (has_id taskId) (loadUserTasks fs userId) = Some i"
  shows "field (task_at (snd (updateTask body userId taskId now fs)) userId i) ''updated_at''
           = Some (JStr now)"
    and "field (task_at (snd (updateTask_part_000 body userId taskId now fs)) userId i) ''updated_at''
           = Some (JStr now)"
  by (auto simp: task_at_updateTask [OF found] task_at_updateTask_part_000 [OF found]
        field_assign field_spread Let_def)

lemma update_part_000_coerces_completed:
  assumes found: "findIndex (has_id taskId) (loadUserTasks fs userId) = Some i"
    and c: "field body ''completed'' = Some c"
  shows "field (task_at (snd (updateTask_part_000 body userId taskId now fs)) userId i) ''completed''
           = Some (JBool (truthy (Some c)))"
  using c
  by (simp add: task_at_updateTask_part_000 [OF found] field_assign Let_def)

lemma update_sql_coerces_completed:
  assumes ok: "fst (fst (updateTask_sql isoDate body userId taskId now db)) = 200"
    and r: "r \<in> set (snd (updateTask_sql isoDate body userId taskId now db))"
    and m: "row_matches taskId userId r"
  shows "row_completed r = (if truthy (field body ''completed'') then 1 else 0)"
proof -
  from ok obtain sd where sd: "sanitizeTaskData isoDate body = Some sd"
    by (cases "sanitizeTaskData isoDate body") (auto simp: updateTask_sql_def)
  define upd where "upd = (\<lambda>r :: task_row. r\<lparr>row_text := td_text sd,
      row_completed := (if truthy (field body ''completed'') then 1 else 0),
      row_priority := td_priority sd, row_category := td_category sd,
      row_deadline := td_deadline sd, row_updated_at := now\<rparr>)"
  have "snd (updateTask_sql isoDate body userId taskId now db)
      = map (\<lambda>r. if row_matches taskId userId r then upd r else r) db"
    by (simp add: updateTask_sql_def sd Let_def upd_def)
  with r obtain r0 where r0: "r0 \<in> set db"
      "r = (if row_matches taskId userId r0 then upd r0 else r0)"
    by auto
  show ?thesis
  proof (cases "row_matches taskId userId r0")
    case True
    with r0 show ?thesis by (simp add: upd_def)
  next
    case False
    with r0 m show ?thesis by simp
  qed
qed


section \<open>Create: what is stored\<close>

text \<open>
  \<open>trim\<close> leaves no white space at either end, so trimming twice is trimming once. A task
  that \<open>createTask\<close> stores has the trimmed text of the body, which is not empty, in all
  three variants. \<open>createTask\<close> of \<open>part_001\<close> also stores a priority and a category of
  the two enumerations, and a deadline that is \<open>NULL\<close>, empty or of the form
  \<open>dddd-dd-dd\<close>; for string values in the body the stored value is the given one when it
  is valid and the default otherwise.
\<close>

lemma dropWhile_hd_self: "xs = [] \<or> \<not> P (hd xs) \<Longrightarrow> dropWhile P xs = xs"
  by (cases xs) auto

lemma trim_fixed:
  assumes "xs = [] \<or> (\<not> is_ws (hd xs) \<and> \<not> is_ws (last xs))"
  shows "trim xs = xs"
proof (cases "xs = []")
  case True
  then show ?thesis by (simp add: trim_def)
next
  case False
  with assms have h: "\<not> is_ws (hd xs)" and l: "\<not> is_ws (last xs)" by auto
  have "dropWhile is_ws xs = xs" using h by (simp add: dropWhile_hd_self)
  moreover have "dropWhile is_ws (rev xs) = rev xs"
    using l False by (simp add: dropWhile_hd_self hd_rev)
  ultimately show ?thesis by (simp add: trim_def)
qed

lemma trim_ends:
  assumes "trim s \<noteq> []"
  shows "\<not> is_ws (hd (trim s)) \<and> \<not> is_ws (last (trim s))"
proof -
  let ?d = "dropWhile is_ws s"
  let ?e = "dropWhile is_ws (rev ?d)"
  from assms have e: "?e \<noteq> []" by (simp add: trim_def)
  then have "\<not> is_ws (hd ?e)" by (rule hd_dropWhile)
  then have lst: "\<not> is_ws (last (trim s))" using e by (simp add: trim_def last_rev)
  have "rev (takeWhile is_ws (rev ?d) @ ?e) = rev (rev ?d)"
    by (simp only: takeWhile_dropWhile_id)
  then have "rev ?e @ rev (takeWhile is_ws (rev ?d)) = ?d"
    by (simp only: rev_append rev_rev_ident)
  then have d: "?d = trim s @ rev (takeWhile is_ws (rev ?d))"
    by (simp only: trim_def)
  then have "?d \<noteq> []" using assms by (metis append_is_Nil_conv)
  then have "\<not> is_ws (hd ?d)" by (rule hd_dropWhile)
  moreover have "hd ?d = hd (trim s)" using d assms by (metis hd_append2)
  ultimately show ?thesis using lst by simp
qed

lemma trim_idem: "trim (trim s) = trim s"
  using trim_ends [of s] by (intro trim_fixed) blast

lemma createTask_stores_trimmed_text:
  assumes "fst (fst (createTask body userId stamp rnd now1 now2 fs)) = 201"
  shows "\<exists>s t. field body ''text'' = Some (JStr s) \<and> trim s \<noteq> [] \<and>
           loadUserTasks (snd (createTask body userId stamp rnd now1 now2 fs)) userId
             = loadUserTasks fs userId @ [t] \<and>
           field t ''text'' = Some (JStr (trim s))"
proof (cases "field body ''text''")
  case None
  with assms show ?thesis by (simp add: createTask_def)
next
  case (Some j)
  show ?thesis
  proof (cases j)
    case (JStr s)
    with Some assms have "trim s \<noteq> []"
      by (auto simp: createTask_def Let_def split: if_splits)
    with Some JStr show ?thesis
      by (auto simp: createTask_def Let_def field_Cons trim_def)
  qed (use Some assms in \<open>auto simp: createTask_def Let_def split: if_splits\<close>)
qed

lemma createTask_sql_created:
  assumes "fst (fst (createTask_sql body userId stamp rnd now db)) = 201"
  shows "\<exists>r. snd (createTask_sql body userId stamp rnd now db) = db @ [r] \<and>
           row_id r = new_task_id stamp rnd \<and> row_user_id r = userId \<and>
           row_text r = trim (String_or (field body ''text'') '''') \<and> row_text r \<noteq> [] \<and>
           row_completed r = 0 \<and>
           row_priority r \<in> set validPriorities \<and>
           row_category r \<in> set validCategories \<and>
           (case row_deadline r of None \<Rightarrow> True | Some d \<Rightarrow> d = [] \<or> dateRegex_test d)"
proof -
  let ?text = "trim (String_or (field body ''text'') '''')"
  from assms have t: "?text \<noteq> []"
    by (auto simp: createTask_sql_def Let_def split: if_splits)
  from assms t have fresh: "new_task_id stamp rnd \<notin> row_id ` set db"
    by (auto simp: createTask_sql_def Let_def split: if_splits)
  have p: "(if p0 \<in> set validPriorities then p0 else ''medium'') \<in> set validPriorities" for p0
    by (simp add: validPriorities_def)
  have c: "(if c0 \<in> set validCategories then c0 else ''personal'') \<in> set validCategories" for c0
    by (simp add: validCategories_def)
  show ?thesis
    using t fresh p c
    by (simp add: createTask_sql_def Let_def split: option.splits)
qed

lemma createTask_sql_string_fields:
  assumes ok: "fst (fst (createTask_sql body userId stamp rnd now db)) = 201"
  shows "(field body ''deadline'' = Some (JStr d) \<and> \<not> dateRegex_test d \<longrightarrow>
            row_deadline (last (snd (createTask_sql body userId stamp rnd now db))) = None) \<and>
         (field body ''deadline'' = Some (JStr d) \<and> dateRegex_test d \<longrightarrow>
            row_deadline (last (snd (createTask_sql body userId stamp rnd now db))) = Some d) \<and>
         (field body ''deadline'' = None \<longrightarrow>
            row_deadline (last (snd (createTask_sql body userId stamp rnd now db))) = None) \<and>
         (field body ''priority'' = Some (JStr p) \<longrightarrow>
            row_priority (last (snd (createTask_sql body userId stamp rnd now db)))
              = (if p \<in> set validPriorities then p else ''medium'')) \<and>
         (field body ''priority'' = None \<longrightarrow>
            row_priority (last (snd (createTask_sql body userId stamp rnd now db))) = ''medium'') \<and>
         (field body ''category'' = Some (JStr c) \<longrightarrow>
            row_category (last (snd (createTask_sql body userId stamp rnd now db)))
              = (if c \<in> set validCategories then c else ''personal'')) \<and>
         (field body ''category'' = None \<longrightarrow>
            row_category (last (snd (createTask_sql body userId stamp rnd now db))) = ''personal'')"
proof -
  let ?text = "trim (String_or (field body ''text'') '''')"
  from ok have t: "?text \<noteq> []"
    by (auto simp: createTask_sql_def Let_def split: if_splits)
  from ok t have fresh: "new_task_id stamp rnd \<notin> row_id ` set db"
    by (auto simp: createTask_sql_def Let_def split: if_splits)
  have m: "''medium'' \<in> set validPriorities" "''personal'' \<in> set validCategories"
    "[] \<notin> set validPriorities" "[] \<notin> set validCategories"
    by (simp_all add: validPriorities_def validCategories_def)
  have e: "\<not> dateRegex_test []" by simp
  show ?thesis
    using t fresh m e
    by (simp add: createTask_sql_def Let_def String_or_def js_String_def)
qed


section \<open>The token of a user name without a colon\<close>

text \<open>
  Decoding undoes encoding, for base64 on bytes and for UTF-8 on strings, and splitting
  \<open>id:name\<close> at the colon gives back \<open>id\<close> and \<open>name\<close> when neither contains a colon.
  Hence, in \<open>index.js\<close>, the token issued for a stored user whose id and name are free of
  colons authenticates that user.
\<close>

lemma findIndex_nth:
  "distinct xs \<Longrightarrow> i < length xs \<Longrightarrow> findIndex (\<lambda>x. x = xs ! i) xs = Some i"
proof (induction xs arbitrary: i)
  case Nil
  then show ?case by simp
next
  case (Cons x xs)
  show ?case
  proof (cases i)
    case 0
    then show ?thesis by simp
  next
    case (Suc j)
    with Cons.prems have "xs ! j \<in> set xs" "x \<notin> set xs" by auto
    then have "x \<noteq> xs ! j" by auto
    with Suc Cons show ?thesis by auto
  qed
qed

lemma b64_alphabet_props: "length b64_alphabet = 64" "distinct b64_alphabet"
  "CHR ''='' \<notin> set b64_alphabet"
  by (simp_all add: b64_alphabet_def)

lemma b64_index_char: "b64_index (b64_char n) = Some (n mod 64)"
  unfolding b64_index_def b64_char_def
  by (rule findIndex_nth) (simp_all add: b64_alphabet_props)

lemma b64_char_not_pad: "b64_char n \<noteq> CHR ''=''"
proof -
  have "b64_char n \<in> set b64_alphabet"
    unfolding b64_char_def by (rule nth_mem) (simp add: b64_alphabet_props)
  then show ?thesis using b64_alphabet_props(3) by auto
qed

lemma sextet_parts:
  fixes r q k :: nat
  assumes "q < k"
  shows "(r * k + q) div k = r" and "(r * k + q) mod k = q"
  using assms by simp_all

lemma sextet_bound:
  fixes r q :: nat
  shows "r < 4 \<Longrightarrow> q < 16 \<Longrightarrow> r * 16 + q < 64"
    and "r < 16 \<Longrightarrow> q < 4 \<Longrightarrow> r * 4 + q < 64"
  by linarith+

lemma byte_parts:
  fixes a :: nat
  assumes "a < 256"
  shows "a div 4 < 64" and "a div 16 < 16" and "a div 64 < 4"
  using assms by (simp_all add: div_less_iff_less_mult)

lemma b64_arith:
  fixes a b c :: nat
  assumes "a < 256" "b < 256" "c < 256"
  shows "(a div 4) mod 64 = a div 4"
    and "((a mod 4) * 16 + b div 16) mod 64 = (a mod 4) * 16 + b div 16"
    and "((b mod 16) * 4 + c div 64) mod 64 = (b mod 16) * 4 + c div 64"
    and "((a mod 4) * 16) mod 64 = (a mod 4) * 16"
    and "((b mod 16) * 4) mod 64 = (b mod 16) * 4"
    and "a div 4 * 4 + ((a mod 4) * 16 + b div 16) div 16 = a"
    and "a div 4 * 4 + ((a mod 4) * 16) div 16 = a"
    and "((a mod 4) * 16 + b div 16) mod 16 * 16 + ((b mod 16) * 4 + c div 64) div 4 = b"
    and "((a mod 4) * 16 + b div 16) mod 16 * 16 + ((b mod 16) * 4) div 4 = b"
    and "((b mod 16) * 4 + c div 64) mod 4 * 64 + c mod 64 = c"
    and "((a mod 4) * 16) mod 16 = 0"
    and "((b mod 16) * 4) mod 4 = 0"
proof -
  note bp = byte_parts [OF assms(1)] byte_parts [OF assms(2)] byte_parts [OF assms(3)]
  have r: "a mod 4 < 4" "b mod 16 < 16" by simp_all
  show "(a div 4) mod 64 = a div 4" using bp(1) by simp
  show "((a mod 4) * 16 + b div 16) mod 64 = (a mod 4) * 16 + b div 16"
    using sextet_bound(1) [OF r(1) bp(5)] by simp
  show "((b mod 16) * 4 + c div 64) mod 64 = (b mod 16) * 4 + c div 64"
    using sextet_bound(2) [OF r(2) bp(9)] by simp
  show "((a mod 4) * 16) mod 64 = (a mod 4) * 16"
    using sextet_bound(1) [OF r(1), of 0] by simp
  show "((b mod 16) * 4) mod 64 = (b mod 16) * 4"
    using sextet_bound(2) [OF r(2), of 0] by simp
  show "a div 4 * 4 + ((a mod 4) * 16 + b div 16) div 16 = a"
    by (simp only: sextet_parts(1) [OF bp(5)] div_mult_mod_eq)
  show "a div 4 * 4 + ((a mod 4) * 16) div 16 = a"
    by simp
  show "((a mod 4) * 16 + b div 16) mod 16 * 16 + ((b mod 16) * 4 + c div 64) div 4 = b"
    by (simp only: sextet_parts(2) [OF bp(5)] sextet_parts(1) [OF bp(9)] div_mult_mod_eq)
  show "((a mod 4) * 16 + b div 16) mod 16 * 16 + ((b mod 16) * 4) div 4 = b"
    by (simp only: sextet_parts(2) [OF bp(5)] nonzero_mult_div_cancel_right div_mult_mod_eq)
  show "((b mod 16) * 4 + c div 64) mod 4 * 64 + c mod 64 = c"
    by (simp only: sextet_parts(2) [OF bp(9)] div_mult_mod_eq)
  show "((a mod 4) * 16) mod 16 = 0" by simp
  show "((b mod 16) * 4) mod 4 = 0" by simp
qed


lemma b64_roundtrip: "\<forall>b \<in> set bs. b < 256 \<Longrightarrow> b64_decode (b64_encode bs) = Some bs"
proof (induction bs rule: b64_encode.induct)
  case 1
  then show ?case by simp
next
  case (2 a)
  then have "a < 256" by simp
  from b64_arith(1,4,7,11) [OF this this this] show ?case
    by (simp add: b64_index_char b64_char_not_pad)
next
  case (3 a b)
  then have "a < 256" "b < 256" by simp_all
  from b64_arith(1,2,5,6,9,12) [OF this this(2)] show ?case
    by (simp add: b64_index_char b64_char_not_pad)
next
  case (4 a b c bs)
  then have lt: "a < 256" "b < 256" "c < 256" and rest: "\<forall>b \<in> set bs. b < 256" by simp_all
  from "4.IH" [OF rest] b64_arith(1,2,3,6,8,10) [OF lt] show ?case
    by (simp add: b64_index_char b64_char_not_pad)
qed

lemma utf8_decode_ascii:
  "b < 128 \<Longrightarrow> utf8_decode (b # bs) = map_option (\<lambda>s. char_of b # s) (utf8_decode bs)"
  by (cases bs) simp_all

lemma utf8_encode_Cons:
  "utf8_encode (c # s) =
     (if of_char c < (128 :: nat) then [of_char c]
      else [192 + of_char c div 64, 128 + of_char c mod 64]) @ utf8_encode s"
  by (simp add: utf8_encode_def)

lemma of_char_less_256: "of_char c < (256 :: nat)"
  by (cases c) (simp add: Suc_lessI)

lemma utf8_roundtrip: "utf8_decode (utf8_encode s) = Some s"
proof (induction s)
  case Nil
  then show ?case by (simp add: utf8_encode_def)
next
  case (Cons c s)
  let ?n = "of_char c :: nat"
  show ?case
  proof (cases "?n < 128")
    case True
    then show ?thesis
      using Cons by (simp add: utf8_encode_Cons utf8_decode_ascii)
  next
    case False
    have lt: "?n < 256" by (rule of_char_less_256)
    have "?n div 64 < 4" using lt by (simp add: div_less_iff_less_mult)
    moreover have "2 \<le> ?n div 64" using False by (simp add: less_eq_div_iff_mult_less_eq)
    ultimately have hi: "?n div 64 = 2 \<or> ?n div 64 = 3" by linarith
    have lo: "?n mod 64 < 64" by simp
    have redo: "?n div 64 * 64 + ?n mod 64 = ?n" by (rule div_mult_mod_eq)
    have lead: "192 + ?n div 64 = 194 \<or> 192 + ?n div 64 = 195"
      using hi by auto
    have "utf8_decode ((192 + ?n div 64) # (128 + ?n mod 64) # utf8_encode s)
          = map_option (\<lambda>t. char_of (?n div 64 * 64 + ?n mod 64) # t)
              (utf8_decode (utf8_encode s))"
      using lead lo by auto
    with False Cons redo show ?thesis
      by (simp add: utf8_encode_Cons)
  qed
qed

lemma utf8_encode_bytes: "\<forall>b \<in> set (utf8_encode s). b < 256"
proof (induction s)
  case Nil
  then show ?case by (simp add: utf8_encode_def)
next
  case (Cons c s)
  have "of_char c < (256 :: nat)" by (rule of_char_less_256)
  moreover have "(of_char c :: nat) div 64 < 4"
    using of_char_less_256 [of c] by (simp add: div_less_iff_less_mult)
  then have "192 + (of_char c :: nat) div 64 < 256" by linarith
  moreover have "128 + (of_char c :: nat) mod 64 < 256"
    using mod_less_divisor [of 64 "of_char c"] by linarith
  ultimately show ?case using Cons by (simp add: utf8_encode_Cons)
qed

lemma split_on_absent: "c \<notin> set s \<Longrightarrow> split_on c s = [s]"
  by (induction s) auto

lemma split_on_first: "c \<notin> set a \<Longrightarrow> split_on c (a @ c # b) = a # split_on c b"
  by (induction a) auto

lemma find_same_key:
  assumes "u \<in> set users"
  shows "\<exists>w. find (\<lambda>x. user_id x = user_id u \<and> user_username x = user_username u) users
            = Some w \<and> user_id w = user_id u \<and> user_username w = user_username u"
proof -
  have "find (\<lambda>x. user_id x = user_id u \<and> user_username x = user_username u) users
        \<noteq> None"
    using assms by (auto simp: find_None_iff)
  then obtain w where
    w: "find (\<lambda>x. user_id x = user_id u \<and> user_username x = user_username u) users
        = Some w"
    by auto
  then have "user_id w = user_id u \<and> user_username w = user_username u"
    by (auto dest: find_Some_iff [THEN iffD1])
  with w show ?thesis by blast
qed

lemma issued_token_authenticates:
  assumes "u \<in> set users"
    and "CHR '':'' \<notin> set (user_id u)" and "CHR '':'' \<notin> set (user_username u)"
  shows "authenticate (Some (''Basic '' @ issue_token (user_id u) (user_username u))) users
           = Auth (user_id u) (user_username u)"
proof -
  let ?payload = "user_id u @ CHR '':'' # user_username u"
  have dec: "b64_decode (issue_token (user_id u) (user_username u)) = Some (utf8_encode ?payload)"
    by (simp add: issue_token_def b64_roundtrip utf8_encode_bytes)
  have redo: "utf8_decode (utf8_encode ?payload) = Some ?payload"
    by (rule utf8_roundtrip)
  have parts: "split_on CHR '':'' ?payload = [user_id u, user_username u]"
    using assms(2,3) by (simp add: split_on_first split_on_absent)
  from find_same_key [OF assms(1)] obtain w where
    w: "find (\<lambda>x. user_id x = user_id u \<and> user_username x = user_username u) users
          = Some w" "user_id w = user_id u" "user_username w = user_username u"
    by blast
  show ?thesis
    by (simp add: authenticate_def dec redo parts w)
qed

lemma login_token_authenticates:
  assumes ok: "handleLogin matches (Some name) (Some pw) users = (200, LoginBody tok uid un)"
    and name: "CHR '':'' \<notin> set name"
    and ids: "\<forall>u \<in> set users. CHR '':'' \<notin> set (user_id u)"
  shows "\<exists>u \<in> set users. user_username u = name \<and>
           authenticate (Some (''Basic '' @ tok)) users = Auth (user_id u) name"
proof -
  from ok obtain u where u: "find (\<lambda>u. user_username u = name) users = Some u"
    by (cases "find (\<lambda>u. user_username u = name) users")
       (auto simp: handleLogin_def split: if_splits option.splits)
  then have mem: "u \<in> set users" and un: "user_username u = name"
    by (auto simp: find_Some_iff)
  from ok u have tok: "tok = issue_token (user_id u) name"
    by (auto simp: handleLogin_def split: if_splits option.splits)
  have "authenticate (Some (''Basic '' @ issue_token (user_id u) (user_username u))) users
          = Auth (user_id u) (user_username u)"
    using mem ids name un by (intro issued_token_authenticates) auto
  with mem un tok show ?thesis by auto
qed

end
